theory Spec2Isabelle
  imports Complex_Main
begin

section \<open>Strings\<close>

text \<open>
  A Python \<open>str\<close> is a sequence of Unicode code points and \<open>len\<close> counts code points.
  The program's literals are partly Chinese, so a string is modelled as the list of its
  code points; \<open>ascii\<close> turns an ASCII literal into such a list.
\<close>

type_synonym ustr = "nat list"

definition ascii :: "string \<Rightarrow> ustr" where
  "ascii s = map of_char s"

text \<open>\<open>sep.join(tokens)\<close> of Python.\<close>

fun join :: "ustr \<Rightarrow> ustr list \<Rightarrow> ustr" where
  "join sep [] = []"
| "join sep [t] = t"
| "join sep (t # u # ts) = t @ sep @ join sep (u # ts)"

text \<open>\<open>d.get(key, default)\<close> on a dictionary.\<close>

definition dict_get :: "('k \<rightharpoonup> 'v) \<Rightarrow> 'k \<Rightarrow> 'v \<Rightarrow> 'v" where
  "dict_get d key dflt = (case d key of None \<Rightarrow> dflt | Some v \<Rightarrow> v)"

text \<open>The slice \<open>xs[i:]\<close> of Python: a negative \<open>i\<close> counts from the end.\<close>

definition slice_from :: "int \<Rightarrow> 'a list \<Rightarrow> 'a list" where
  "slice_from i xs =
     (if i < 0 then drop (nat (int (length xs) + i)) xs else drop (nat i) xs)"

section \<open>The generative model and the Python library\<close>

datatype exn = ValueError ustr | HTTPException nat ustr | OtherError ustr

text \<open>
  The three prompt templates live in the package \<open>prompts\<close>; a call of \<open>LLMChain.run\<close>
  is the template together with the dictionary of variables handed to it. The model
  either replies with a text or raises. It runs at temperature 0.7, so its reply may
  differ between two equal calls: the model is a function of the calls made before
  (the trace) as well.
\<close>

datatype prompt = rerank_prompt | legal_prompt | fallback_prompt

type_synonym llm_call = "prompt \<times> (ustr \<rightharpoonup> ustr)"

datatype reply = Reply ustr | Raises exn

type_synonym trace = "llm_call list"

type_synonym llm = "trace \<Rightarrow> llm_call \<Rightarrow> reply"

definition chain_run :: "llm \<Rightarrow> llm_call \<Rightarrow> trace \<Rightarrow> reply \<times> trace" where
  "chain_run M c tr = (M tr c, tr @ [c])"

text \<open>
  Functions of the Python library that the program calls, taken as they are:
  \<open>re_search\<close> is \<open>re.search\<close> with the pattern and flags of \<open>get_rerank_scores\<close> and
  gives the groups 1 and 2 of the match; \<open>float_of\<close> is \<open>float\<close> (\<open>None\<close> when it
  raises); \<open>strip\<close> is \<open>str.strip\<close>; \<open>str_exn\<close> is \<open>str\<close> on an exception. The type
  \<open>'s\<close> stands for Python's \<open>float\<close> without NaN, a linear order.
\<close>

record 's pylib =
  re_search :: "ustr \<Rightarrow> (ustr \<times> ustr) option"
  float_of :: "ustr \<Rightarrow> 's option"
  strip :: "ustr \<Rightarrow> ustr"
  str_exn :: "exn \<Rightarrow> ustr"

section \<open>rerank/rerank\_chain.py\<close>

text \<open>The literals of lines 12 and 56: "score format not recognised", "model call error".\<close>

definition default_reason :: ustr where
  "default_reason = [0x672A, 0x80FD, 0x8BC6, 0x522B, 0x8BC4, 0x5206, 0x683C, 0x5F0F]"

definition call_error_reason :: ustr where
  "call_error_reason = [0x6A21, 0x578B, 0x8C03, 0x7528, 0x5F02, 0x5E38]"

text \<open>
  The body of the \<open>try\<close> of lines 33 to 56 for one document, given what the model call
  did: every exception of the body ends in the \<open>except\<close> branch.
\<close>

definition score_document :: "'s pylib \<Rightarrow> 's \<Rightarrow> ustr \<Rightarrow> reply \<Rightarrow> ustr \<Rightarrow> 's \<times> ustr \<times> ustr" where
  "score_document L default_score default_rsn r doc =
     (case r of
        Raises e \<Rightarrow> (default_score, doc, call_error_reason)
      | Reply response \<Rightarrow>
          (case re_search L response of
             None \<Rightarrow> (default_score, doc, default_rsn)
           | Some (g1, g2) \<Rightarrow>
               (case float_of L g1 of
                  None \<Rightarrow> (default_score, doc, call_error_reason)
                | Some score \<Rightarrow> (score, doc, strip L g2))))"

definition rerank_call :: "ustr \<Rightarrow> ustr \<Rightarrow> llm_call" where
  "rerank_call question doc =
     (rerank_prompt, [ascii ''question'' \<mapsto> question, ascii ''context'' \<mapsto> doc])"

fun rerank_loop ::
  "'s pylib \<Rightarrow> llm \<Rightarrow> ustr \<Rightarrow> 's \<Rightarrow> ustr \<Rightarrow> ustr list \<Rightarrow> ('s \<times> ustr \<times> ustr) list \<Rightarrow> trace
     \<Rightarrow> ('s \<times> ustr \<times> ustr) list \<times> trace" where
  "rerank_loop L M question ds dr [] results tr = (results, tr)"
| "rerank_loop L M question ds dr (doc # docs) results tr =
     (case chain_run M (rerank_call question doc) tr of
        (r, tr') \<Rightarrow>
          rerank_loop L M question ds dr docs (results @ [score_document L ds dr r doc]) tr')"

definition get_rerank_scores ::
  "'s pylib \<Rightarrow> llm \<Rightarrow> ustr \<Rightarrow> ustr list \<Rightarrow> 's \<Rightarrow> ustr \<Rightarrow> trace
     \<Rightarrow> ('s \<times> ustr \<times> ustr) list \<times> trace" where
  "get_rerank_scores L M question documents default_score default_rsn tr =
     rerank_loop L M question default_score default_rsn documents [] tr"

section \<open>rag\_chain/chain.py\<close>

record document =
  page_content :: ustr
  metadata :: "ustr \<rightharpoonup> ustr"

text \<open>An entry of \<open>selected_docs\<close>: the dictionary built at lines 138 to 144.\<close>

record 's selected_doc =
  content :: ustr
  score :: 's
  reason :: ustr
  source_name :: ustr
  source_text :: ustr

text \<open>
  The dictionary that \<open>invoke\<close> returns. The key \<open>no_use_reason\<close> is absent on the
  answering path.
\<close>

record 's pipeline_result =
  result :: ustr
  source_documents :: "'s selected_doc list"
  top_score :: 's
  used_knowledge :: bool
  no_use_reason :: "ustr option"

text \<open>
  The object \<open>QARunnable\<close>: the two retrievers (read-only index queries), the model
  behind both chains, and the two numbers set by \<open>__init__\<close>.
\<close>

record 's QARunnable =
  similarity_search :: "ustr \<Rightarrow> nat \<Rightarrow> document list"
  bm25_invoke :: "ustr \<Rightarrow> document list"
  llm_of :: llm
  threshold :: 's
  max_context_length :: nat

text \<open>
  Lines 44 to 49 of \<open>__init__\<close>: the documents handed to the BM25 retriever, with
  \<open>jieba_cut\<close> for \<open>jieba.cut\<close>.
\<close>

definition segmented_text :: "(ustr \<Rightarrow> ustr list) \<Rightarrow> ustr \<Rightarrow> ustr" where
  "segmented_text jieba_cut text = join (ascii '' '') (jieba_cut text)"

definition segmented_docs ::
  "(ustr \<Rightarrow> ustr list) \<Rightarrow> ustr list \<Rightarrow> (ustr \<rightharpoonup> ustr) list \<Rightarrow> document list" where
  "segmented_docs jieba_cut texts metadatas =
     map (\<lambda>(text, meta). \<lparr>page_content = segmented_text jieba_cut text, metadata = meta\<rparr>)
       (zip texts metadatas)"

text \<open>
  \<open>__init__\<close>: \<open>search\<close> is the similarity search of the Chroma collection whose
  stored texts and metadata are \<open>texts\<close> and \<open>metadatas\<close>, \<open>from_documents\<close> is
  \<open>BM25Retriever.from_documents\<close>. The library builds a BM25 retriever on a
  non-empty collection only (on an empty one the constructor raises), so the object
  stands for a program that started when \<open>texts\<close> is not empty.
\<close>

definition QARunnable_init ::
  "llm \<Rightarrow> (ustr \<Rightarrow> nat \<Rightarrow> document list) \<Rightarrow> ustr list \<Rightarrow> (ustr \<rightharpoonup> ustr) list
     \<Rightarrow> (ustr \<Rightarrow> ustr list) \<Rightarrow> (document list \<Rightarrow> ustr \<Rightarrow> document list) \<Rightarrow> 's \<Rightarrow> 's QARunnable" where
  "QARunnable_init M search texts metadatas jieba_cut from_documents thr =
     \<lparr>similarity_search = search,
      bm25_invoke = from_documents (segmented_docs jieba_cut texts metadatas),
      llm_of = M,
      threshold = thr,
      max_context_length = 2000\<rparr>"

text \<open>The literals of lines 97 and 121: "no document retrieved", "no relevant
  knowledge document, or the question needs no document".\<close>

definition no_documents_reason :: ustr where
  "no_documents_reason = [0x672A, 0x68C0, 0x7D22, 0x5230, 0x4EFB, 0x4F55, 0x6587, 0x6863]"

definition no_relevant_reason :: ustr where
  "no_relevant_reason =
     [0x65E0, 0x76F8, 0x5173, 0x77E5, 0x8BC6, 0x6587, 0x6863, 0x6216, 0x8BE5, 0x95EE,
      0x9898, 0x4E0D, 0x9700, 0x8981, 0x5F15, 0x7528, 0x6587, 0x6863]"

text \<open>Lines 82 to 87: the merge loop with its set \<open>seen\<close>.\<close>

fun merge_loop :: "document list \<Rightarrow> ustr set \<Rightarrow> document list \<Rightarrow> document list" where
  "merge_loop [] seen merged_docs = merged_docs"
| "merge_loop (doc # docs) seen merged_docs =
     (if page_content doc \<notin> seen
      then merge_loop docs (insert (page_content doc) seen) (merged_docs @ [doc])
      else merge_loop docs seen merged_docs)"

text \<open>Lines 76 to 87: the hybrid retrieval.\<close>

definition retrieved :: "'s QARunnable \<Rightarrow> ustr \<Rightarrow> document list" where
  "retrieved self query = similarity_search self query 15 @ take 5 (bm25_invoke self query)"

definition merged_docs_of :: "'s QARunnable \<Rightarrow> ustr \<Rightarrow> document list" where
  "merged_docs_of self query = merge_loop (retrieved self query) {} []"

text \<open>
  \<open>sorted(xs, key=..., reverse=True)\<close>: CPython reverses the list, sorts it stably in
  ascending order and reverses it again.
\<close>

definition sorted_reverse :: "('a \<Rightarrow> 'k::linorder) \<Rightarrow> 'a list \<Rightarrow> 'a list" where
  "sorted_reverse key xs = rev (sort_key key (rev xs))"

text \<open>Lines 105 to 111.\<close>

definition filtering :: "'s::linorder \<Rightarrow> ('s \<times> ustr \<times> ustr) list \<Rightarrow> ('s \<times> ustr \<times> ustr) list" where
  "filtering thr reranked =
     take 3 (sorted_reverse fst (filter (\<lambda>item. fst item \<ge> thr) reranked))"

text \<open>Line 125: the dictionary comprehension, a later document overwriting an earlier one.\<close>

definition content2metadata_of :: "document list \<Rightarrow> (ustr \<rightharpoonup> (ustr \<rightharpoonup> ustr))" where
  "content2metadata_of docs = foldl (\<lambda>m doc. m(page_content doc \<mapsto> metadata doc)) Map.empty docs"

text \<open>
  Lines 133 to 135: \<open>metadata.get(key, "") if metadata else ""\<close>, where \<open>metadata\<close> is
  \<open>None\<close> for a text that is not a key, and an empty dictionary is falsy too.
\<close>

definition metadata_field :: "(ustr \<rightharpoonup> ustr) option \<Rightarrow> ustr \<Rightarrow> ustr" where
  "metadata_field md key =
     (case md of
        None \<Rightarrow> []
      | Some m \<Rightarrow> if m = Map.empty then [] else dict_get m key [])"

text \<open>Lines 127 to 144: the loop of the context assembly; \<open>break\<close> returns the state.\<close>

fun assemble ::
  "(ustr \<rightharpoonup> (ustr \<rightharpoonup> ustr)) \<Rightarrow> nat \<Rightarrow> ('s \<times> ustr \<times> ustr) list \<Rightarrow> ustr \<Rightarrow> 's selected_doc list
     \<Rightarrow> ustr \<times> 's selected_doc list" where
  "assemble c2m max_len [] context selected_docs = (context, selected_docs)"
| "assemble c2m max_len ((scr, doc_text, rsn) # rest) context selected_docs =
     (if length context + length doc_text > max_len then (context, selected_docs)
      else assemble c2m max_len rest (context @ doc_text @ ascii ''\<newline>\<newline>'')
             (selected_docs @
               [\<lparr>content = doc_text, score = scr, reason = rsn,
                 source_name = metadata_field (c2m doc_text) (ascii ''source_name''),
                 source_text = metadata_field (c2m doc_text) (ascii ''source_text'')\<rparr>]))"

text \<open>
  The return of a generation call: an exception of \<open>run\<close> is not caught here and leaves
  \<open>invoke\<close>.
\<close>

definition returning ::
  "reply \<times> trace \<Rightarrow> (ustr \<Rightarrow> 's pipeline_result) \<Rightarrow> (exn + 's pipeline_result) \<times> trace" where
  "returning rt build =
     (case rt of
        (Raises e, tr') \<Rightarrow> (Inl e, tr')
      | (Reply response, tr') \<Rightarrow> (Inr (build response), tr'))"

definition invoke ::
  "'s::{linorder,zero} pylib \<Rightarrow> 's QARunnable \<Rightarrow> (ustr \<rightharpoonup> ustr) \<Rightarrow> trace
     \<Rightarrow> (exn + 's pipeline_result) \<times> trace" where
  "invoke L self inputs tr =
     (let query = dict_get inputs (ascii ''query'') [];
          chat_history = dict_get inputs (ascii ''chat_history'') [];
          merged_docs = merged_docs_of self query
      in
      if merged_docs = [] then
        returning
          (chain_run (llm_of self) (fallback_prompt, [ascii ''question'' \<mapsto> query]) tr)
          (\<lambda>response. \<lparr>result = response, source_documents = [], top_score = 0,
                        used_knowledge = False, no_use_reason = Some no_documents_reason\<rparr>)
      else
        (case get_rerank_scores L (llm_of self) query (map page_content merged_docs)
                0 default_reason tr of
           (reranked, tr1) \<Rightarrow>
             (let filtered = filtering (threshold self) reranked in
              if filtered = [] then
                returning
                  (chain_run (llm_of self)
                     (fallback_prompt,
                      [ascii ''question'' \<mapsto> query, ascii ''chat_history'' \<mapsto> chat_history]) tr1)
                  (\<lambda>response. \<lparr>result = response, source_documents = [], top_score = 0,
                                used_knowledge = False, no_use_reason = Some no_relevant_reason\<rparr>)
              else
                (case assemble (content2metadata_of merged_docs) (max_context_length self)
                        filtered [] [] of
                   (context, selected_docs) \<Rightarrow>
                     (let top = (case selected_docs of [] \<Rightarrow> 0 | d # _ \<Rightarrow> score d) in
                      returning
                        (chain_run (llm_of self)
                           (legal_prompt,
                            [ascii ''context'' \<mapsto> context, ascii ''question'' \<mapsto> query,
                             ascii ''chat_history'' \<mapsto> chat_history]) tr1)
                        (\<lambda>response. \<lparr>result = response, source_documents = selected_docs,
                                      top_score = top, used_knowledge = True,
                                      no_use_reason = None\<rparr>))))))"

section \<open>services/chat\_service.py\<close>

text \<open>The messages of the session history (\<open>langchain_core.messages\<close>), by content.\<close>

datatype base_message = HumanMessage ustr | AIMessage ustr

definition MAX_HISTORY_MSGS :: int where
  "MAX_HISTORY_MSGS = 10"

definition MAX_TOKENS :: int where
  "MAX_TOKENS = 1500"

text \<open>Lines 31 and 32: the role and the formatted line of a message.\<close>

definition format_line :: "base_message \<Rightarrow> ustr" where
  "format_line msg =
     (case msg of
        HumanMessage c \<Rightarrow> ascii ''User'' @ ascii '': '' @ c @ ascii ''\<newline>''
      | AIMessage c \<Rightarrow> ascii ''Assistant'' @ ascii '': '' @ c @ ascii ''\<newline>'')"

text \<open>
  \<open>count_tokens\<close> is the length of the \<open>tiktoken\<close> encoding of a text, a function of
  the library taken as a parameter \<open>ct\<close>; the encoder raises on a text that holds one
  of its special tokens, and nothing catches that. Lines 30 to 41 are the loop over
  the reversed slice; \<open>break\<close> returns the text built so far.
\<close>

fun history_loop ::
  "(ustr \<Rightarrow> exn + nat) \<Rightarrow> int \<Rightarrow> base_message list \<Rightarrow> ustr \<Rightarrow> int \<Rightarrow> exn + ustr" where
  "history_loop ct max_tokens [] history_text total_tokens = Inr history_text"
| "history_loop ct max_tokens (msg # msgs) history_text total_tokens =
     (case ct (format_line msg) of
        Inl e \<Rightarrow> Inl e
      | Inr line_tokens \<Rightarrow>
          if total_tokens + int line_tokens > max_tokens then Inr history_text
          else history_loop ct max_tokens msgs (format_line msg @ history_text)
                 (total_tokens + int line_tokens))"

definition build_history_text_with_token_limit ::
  "(ustr \<Rightarrow> exn + nat) \<Rightarrow> base_message list \<Rightarrow> int \<Rightarrow> int \<Rightarrow> exn + ustr" where
  "build_history_text_with_token_limit ct messages max_msgs max_tokens =
     history_loop ct max_tokens (rev (slice_from (- max_msgs) messages)) [] 0"

text \<open>schemas/chat\_schema.py: \<open>Message\<close>, \<open>ChatRequest\<close> and \<open>ChatResponse\<close>; a
  \<open>SourceDocument\<close> has the fields of an entry of \<open>selected_docs\<close>.\<close>

record message =
  role :: ustr
  msg_content :: ustr

record chat_request =
  session_id :: ustr
  messages :: "message list"

datatype 's chat_response =
  ChatResponse ustr bool "'s option" "ustr option" "'s selected_doc list"

text \<open>
  Lines 49 to 54: the incoming messages are appended to the session history (the
  state, a list of messages) and the last user content is kept.
\<close>

fun add_messages ::
  "message list \<Rightarrow> base_message list \<Rightarrow> ustr option \<Rightarrow> base_message list \<times> ustr option" where
  "add_messages [] history last_user_question = (history, last_user_question)"
| "add_messages (msg # msgs) history last_user_question =
     (if role msg = ascii ''user''
      then add_messages msgs (history @ [HumanMessage (msg_content msg)]) (Some (msg_content msg))
      else if role msg = ascii ''assistant''
      then add_messages msgs (history @ [AIMessage (msg_content msg)]) last_user_question
      else add_messages msgs history last_user_question)"

text \<open>\<open>not last_user_question\<close>: \<open>None\<close> and the empty string are both falsy.\<close>

definition falsy :: "ustr option \<Rightarrow> bool" where
  "falsy q = (case q of None \<Rightarrow> True | Some t \<Rightarrow> t = [])"

text \<open>
  Lines 59 to 103, shared by \<open>chat_service\<close> and the handler \<open>chat\<close>: the history
  text, the call of the chain, the response and the answer appended to the history.
  The result is the outcome, the session history and the trace of model calls.
\<close>

definition answer_question ::
  "'s::{linorder,zero} pylib \<Rightarrow> 's QARunnable \<Rightarrow> (ustr \<Rightarrow> exn + nat) \<Rightarrow> ustr
     \<Rightarrow> base_message list \<Rightarrow> trace \<Rightarrow> (exn + 's chat_response) \<times> base_message list \<times> trace" where
  "answer_question L qa_chain ct question history tr =
     (case build_history_text_with_token_limit ct history MAX_HISTORY_MSGS MAX_TOKENS of
        Inl e \<Rightarrow> (Inl e, history, tr)
      | Inr history_text \<Rightarrow>
          (case invoke L qa_chain
                  [ascii ''query'' \<mapsto> question, ascii ''chat_history'' \<mapsto> history_text] tr of
             (Inl e, tr') \<Rightarrow> (Inl e, history, tr')
           | (Inr res, tr') \<Rightarrow>
               (Inr (ChatResponse (result res) (used_knowledge res) (Some (top_score res))
                       (no_use_reason res) (source_documents res)),
                history @ [AIMessage (result res)], tr')))"

definition chat_service ::
  "'s::{linorder,zero} pylib \<Rightarrow> 's QARunnable \<Rightarrow> (ustr \<Rightarrow> exn + nat) \<Rightarrow> chat_request
     \<Rightarrow> base_message list \<Rightarrow> trace \<Rightarrow> (exn + 's chat_response) \<times> base_message list \<times> trace" where
  "chat_service L qa_chain ct req history0 tr =
     (case add_messages (messages req) history0 None of
        (history, last_user_question) \<Rightarrow>
          if falsy last_user_question
          then (Inl (ValueError (ascii ''No user question provided.'')), history, tr)
          else answer_question L qa_chain ct (the last_user_question) history tr)"

section \<open>api/chat\_api.py\<close>

text \<open>Lines 12 to 52: the body of the \<open>try\<close>.\<close>

definition chat_try ::
  "'s::{linorder,zero} pylib \<Rightarrow> 's QARunnable \<Rightarrow> (ustr \<Rightarrow> exn + nat) \<Rightarrow> chat_request
     \<Rightarrow> base_message list \<Rightarrow> trace \<Rightarrow> (exn + 's chat_response) \<times> base_message list \<times> trace" where
  "chat_try L qa_chain ct req history0 tr =
     (case add_messages (messages req) history0 None of
        (history, last_user_question) \<Rightarrow>
          if falsy last_user_question
          then (Inl (HTTPException 400 (ascii ''No user question provided.'')), history, tr)
          else answer_question L qa_chain ct (the last_user_question) history tr)"

text \<open>
  Lines 54 and 55: \<open>except Exception as e\<close> around the whole body. \<open>HTTPException\<close>
  is a subclass of \<open>Exception\<close>, so the handler catches the one raised at line 23 too.
\<close>

definition chat ::
  "'s::{linorder,zero} pylib \<Rightarrow> 's QARunnable \<Rightarrow> (ustr \<Rightarrow> exn + nat) \<Rightarrow> chat_request
     \<Rightarrow> base_message list \<Rightarrow> trace \<Rightarrow> (exn + 's chat_response) \<times> base_message list \<times> trace" where
  "chat L qa_chain ct req history0 tr =
     (case chat_try L qa_chain ct req history0 tr of
        (Inl e, history, tr') \<Rightarrow>
          (Inl (HTTPException 500 (ascii ''Internal error: '' @ str_exn L e)), history, tr')
      | (Inr response, history, tr') \<Rightarrow> (Inr response, history, tr'))"

section \<open>The local variables of \<open>invoke\<close>\<close>

text \<open>
  The values that \<open>invoke\<close> computes on the way, by the names the source gives them:
  \<open>query\<close> and \<open>chat_history\<close> (lines 71 and 72), \<open>reranked\<close> (line 102),
  \<open>filtered\<close> (line 111), the trace once the scorer has run, and the context and the
  selected documents after the loop of lines 129 to 144.
\<close>

definition query_of :: "(ustr \<rightharpoonup> ustr) \<Rightarrow> ustr" where
  "query_of inputs = dict_get inputs (ascii ''query'') []"

definition chat_history_of :: "(ustr \<rightharpoonup> ustr) \<Rightarrow> ustr" where
  "chat_history_of inputs = dict_get inputs (ascii ''chat_history'') []"

definition reranked_of ::
  "'s::{linorder,zero} pylib \<Rightarrow> 's QARunnable \<Rightarrow> ustr \<Rightarrow> trace \<Rightarrow> ('s \<times> ustr \<times> ustr) list" where
  "reranked_of L self query tr =
     fst (get_rerank_scores L (llm_of self) query
            (map page_content (merged_docs_of self query)) 0 default_reason tr)"

definition filtered_of ::
  "'s::{linorder,zero} pylib \<Rightarrow> 's QARunnable \<Rightarrow> ustr \<Rightarrow> trace \<Rightarrow> ('s \<times> ustr \<times> ustr) list" where
  "filtered_of L self query tr = filtering (threshold self) (reranked_of L self query tr)"

definition scored_trace :: "'s QARunnable \<Rightarrow> ustr \<Rightarrow> trace \<Rightarrow> trace" where
  "scored_trace self query tr =
     tr @ map (rerank_call query) (map page_content (merged_docs_of self query))"

definition assembled_of ::
  "'s::{linorder,zero} pylib \<Rightarrow> 's QARunnable \<Rightarrow> ustr \<Rightarrow> trace \<Rightarrow> ustr \<times> 's selected_doc list" where
  "assembled_of L self query tr =
     assemble (content2metadata_of (merged_docs_of self query)) (max_context_length self)
       (filtered_of L self query tr) [] []"

section \<open>Example inputs\<close>

text \<open>
  A library whose pattern search never matches and a model that replies to its first
  call and raises at every later one.
\<close>

definition silent_lib :: "real pylib" where
  "silent_lib = \<lparr>re_search = (\<lambda>response. None), float_of = (\<lambda>g. None),
      strip = (\<lambda>g. g), str_exn = (\<lambda>e. [])\<rparr>"

definition reply_then_raise :: llm where
  "reply_then_raise =
     (\<lambda>tr c. if tr = [] then Reply (ascii ''no score here'') else Raises (OtherError []))"

text \<open>
  A model that always replies, and an index of one stored text that both retrievers
  find.
\<close>

definition always_reply :: llm where
  "always_reply = (\<lambda>tr c. Reply (ascii ''answer''))"

definition law_doc :: document where
  "law_doc = \<lparr>page_content = ascii ''law'', metadata = [ascii ''source_name'' \<mapsto> ascii ''code'']\<rparr>"

definition law_runnable :: "real QARunnable" where
  "law_runnable =
     QARunnable_init always_reply (\<lambda>query k. [law_doc]) [ascii ''law'']
       [[ascii ''source_name'' \<mapsto> ascii ''code'']] (\<lambda>text. [text]) (\<lambda>docs query. take 4 docs) 70"

definition law_inputs :: "ustr \<rightharpoonup> ustr" where
  "law_inputs = [ascii ''query'' \<mapsto> ascii ''q'', ascii ''chat_history'' \<mapsto> ascii ''h'']"

text \<open>
  A library whose pattern search always finds the score 90, and an index that holds
  one text, found by both retrievers.
\<close>

definition scoring_lib :: "real pylib" where
  "scoring_lib = \<lparr>re_search = (\<lambda>response. Some (ascii ''90'', response)),
      float_of = (\<lambda>g. Some 90), strip = (\<lambda>g. g), str_exn = (\<lambda>e. [])\<rparr>"

definition single_text_runnable :: "ustr \<Rightarrow> real QARunnable" where
  "single_text_runnable text =
     QARunnable_init always_reply (\<lambda>query k. [\<lparr>page_content = text, metadata = Map.empty\<rparr>])
       [text] [Map.empty] (\<lambda>t. [t]) (\<lambda>docs query. take 4 docs) 70"

text \<open>
  The value of \<open>line_tokens\<close> (line 33) for a message whose line the tokenizer accepts.
\<close>

definition line_tokens :: "(ustr \<Rightarrow> exn + nat) \<Rightarrow> base_message \<Rightarrow> int" where
  "line_tokens ct msg = (case ct (format_line msg) of Inl e \<Rightarrow> 0 | Inr n \<Rightarrow> int n)"




text \<open>
  A segmenter that cuts a text into its characters, and an index that holds the text
  "ab": the semantic search finds the stored document, the lexical retriever returns
  the first documents of its own corpus.
\<close>

definition char_cut :: "ustr \<Rightarrow> ustr list" where
  "char_cut text = map (\<lambda>c. [c]) text"

definition ab_runnable :: "real QARunnable" where
  "ab_runnable =
     QARunnable_init always_reply (\<lambda>query k. [\<lparr>page_content = ascii ''ab'', metadata = Map.empty\<rparr>])
       [ascii ''ab''] [Map.empty] char_cut (\<lambda>docs query. take 4 docs) 70"

section \<open>Properties of the relevance scorer\<close>

lemma ascii_eq_iff [simp]: "ascii a = ascii b \<longleftrightarrow> a = b"
proof -
  have "inj (of_char :: char \<Rightarrow> nat)"
    by (simp add: inj_on_def)
  then show ?thesis
    unfolding ascii_def by (rule inj_map_eq_map)
qed

lemma length_ascii [simp]: "length (ascii s) = length s"
  by (simp add: ascii_def)

lemma score_document_text: "fst (snd (score_document L ds dr r doc)) = doc"
  by (simp add: score_document_def split: reply.splits option.splits prod.splits)

text \<open>The loop issues one call per document, in input order.\<close>

lemma rerank_loop_trace:
  "snd (rerank_loop L M q ds dr docs results tr) = tr @ map (rerank_call q) docs"
  by (induction docs arbitrary: results tr) (simp_all add: chain_run_def)

text \<open>
  The loop appends, for the document at index \<open>i\<close>, the tuple made from the reply to
  the call for that document, which the model gives after the calls for the documents
  before it.
\<close>

lemma rerank_loop_results:
  "fst (rerank_loop L M q ds dr docs results tr) =
     results @ map (\<lambda>i. score_document L ds dr
                     (M (tr @ map (rerank_call q) (take i docs)) (rerank_call q (docs ! i)))
                     (docs ! i)) [0..<length docs]"
proof (induction docs arbitrary: results tr)
  case Nil
  then show ?case by simp
next
  case (Cons doc docs)
  have shift: "[0..<length (doc # docs)] = 0 # map Suc [0..<length docs]"
    by (simp add: upt_conv_Cons map_Suc_upt del: upt_Suc)
  show ?case
    unfolding shift by (simp add: chain_run_def Cons.IH comp_def)
qed

lemma rerank_loop_length:
  "length (fst (rerank_loop L M q ds dr docs results tr)) = length results + length docs"
  by (simp add: rerank_loop_results)

lemma rerank_loop_texts:
  "map (\<lambda>t. fst (snd t)) (fst (rerank_loop L M q ds dr docs results tr)) =
     map (\<lambda>t. fst (snd t)) results @ docs"
  by (simp add: rerank_loop_results comp_def score_document_text map_nth)

text \<open>
  C5. For every question and every list of N passage texts, whatever the model does at
  each call (reply or raise) and whatever the library functions return, the scorer
  returns exactly N tuples and the text of the i-th tuple is the i-th input passage.
\<close>

theorem rerank_scores_length_and_order:
  "length (fst (get_rerank_scores L M question documents ds dr tr)) = length documents \<and>
   map (\<lambda>(s, text, rationale). text)
     (fst (get_rerank_scores L M question documents ds dr tr)) = documents"
  using rerank_loop_texts [of L M question ds dr documents "[]" tr]
  by (simp add: get_rerank_scores_def rerank_loop_length case_prod_unfold)

text \<open>
  C6. With the defaults of the scorer, the batch is never aborted (one tuple per
  passage), and for the passage at index \<open>i\<close>: when the model call for it raises, its
  tuple is the score 0, the passage and the reason of line 56 ("model call error");
  when the model replies and the pattern search finds no match in the reply, its tuple
  is the score 0, the passage and the default reason of line 12 ("score format not
  recognised").
\<close>

theorem rerank_defaults:
  assumes "i < length documents"
  shows "length (fst (get_rerank_scores L M question documents 0 default_reason tr))
           = length documents \<and>
    (case M (tr @ map (rerank_call question) (take i documents))
             (rerank_call question (documents ! i)) of
       Raises e \<Rightarrow>
         fst (get_rerank_scores L M question documents 0 default_reason tr) ! i =
           (0, documents ! i, call_error_reason)
     | Reply response \<Rightarrow>
         re_search L response = None \<longrightarrow>
         fst (get_rerank_scores L M question documents 0 default_reason tr) ! i =
           (0, documents ! i, default_reason))"
  using assms
  by (simp add: get_rerank_scores_def rerank_loop_results score_document_def
      split: reply.splits)

theorem rerank_defaults_witness:
  "fst (get_rerank_scores silent_lib reply_then_raise (ascii ''q'') [ascii ''a'', ascii ''b'']
          0 default_reason []) ! 0 = (0, ascii ''a'', default_reason) \<and>
   fst (get_rerank_scores silent_lib reply_then_raise (ascii ''q'') [ascii ''a'', ascii ''b'']
          0 default_reason []) ! 1 = (0, ascii ''b'', call_error_reason)"
  using rerank_defaults [where i = 0 and documents = "[ascii ''a'', ascii ''b'']"
      and M = reply_then_raise and tr = "[]" and question = "ascii ''q''" and L = silent_lib]
    rerank_defaults [where i = 1 and documents = "[ascii ''a'', ascii ''b'']"
      and M = reply_then_raise and tr = "[]" and question = "ascii ''q''" and L = silent_lib]
  by (simp add: silent_lib_def reply_then_raise_def)

section \<open>Properties of the hybrid retrieval\<close>

lemma upt_shift: "[0..<Suc n] = 0 # map Suc [0..<n]"
  by (simp add: upt_conv_Cons map_Suc_upt del: upt_Suc)

lemma merge_loop_first_occurrences:
  "merge_loop docs seen merged =
     merged @ map (\<lambda>i. docs ! i)
       (filter (\<lambda>i. page_content (docs ! i) \<notin> seen \<union> page_content ` set (take i docs))
          [0..<length docs])"
proof (induction docs arbitrary: seen merged)
  case Nil
  then show ?case by simp
next
  case (Cons doc docs)
  have len: "[0..<length (doc # docs)] = 0 # map Suc [0..<length docs]"
    using upt_shift [of "length docs"] by simp
  show ?case
  proof (cases "page_content doc \<in> seen")
    case True
    then have same: "insert (page_content doc) seen = seen" by auto
    have "filter (\<lambda>i. page_content (docs ! i) \<notin> seen \<and>
                 page_content (docs ! i) \<noteq> page_content doc \<and>
                 page_content (docs ! i) \<notin> page_content ` set (take i docs)) [0..<length docs] =
          filter (\<lambda>i. page_content (docs ! i) \<notin> seen \<and>
                 page_content (docs ! i) \<notin> page_content ` set (take i docs)) [0..<length docs]"
      using True by (intro filter_cong) auto
    with True show ?thesis
      unfolding len by (simp add: Cons.IH filter_map comp_def)
  next
    case False
    then show ?thesis
      unfolding len by (simp add: Cons.IH filter_map comp_def conj_ac)
  qed
qed

lemma merge_loop_distinct:
  "distinct (map page_content merged) \<Longrightarrow> page_content ` set merged \<subseteq> seen \<Longrightarrow>
   distinct (map page_content (merge_loop docs seen merged))"
proof (induction docs arbitrary: seen merged)
  case Nil
  then show ?case by simp
next
  case (Cons doc docs)
  show ?case
  proof (cases "page_content doc \<in> seen")
    case True
    with Cons show ?thesis by simp
  next
    case False
    have "distinct (map page_content (merged @ [doc]))"
      using Cons.prems False by auto
    moreover have "page_content ` set (merged @ [doc]) \<subseteq> insert (page_content doc) seen"
      using Cons.prems by auto
    ultimately show ?thesis
      using False Cons.IH by simp
  qed
qed

lemma merge_loop_texts:
  "page_content ` set (merge_loop docs seen merged) =
     page_content ` set merged \<union> (page_content ` set docs - seen)"
  by (induction docs arbitrary: seen merged) auto

text \<open>
  C8. For every query, no two entries of the merged candidate list have the same text;
  the list is taken from the semantic results followed by the (at most five) lexical
  results, keeps their order, loses no text, and keeps an entry exactly when no entry
  before it has its text: the first occurrence of a text stays, at its position.
\<close>

theorem merged_docs_no_duplicates_first_wins:
  "distinct (map page_content (merged_docs_of self query)) \<and>
   page_content ` set (merged_docs_of self query) = page_content ` set (retrieved self query) \<and>
   retrieved self query = similarity_search self query 15 @ take 5 (bm25_invoke self query) \<and>
   merged_docs_of self query =
     map (\<lambda>i. retrieved self query ! i)
       (filter (\<lambda>i. page_content (retrieved self query ! i)
                       \<notin> page_content ` set (take i (retrieved self query)))
          [0..<length (retrieved self query)])"
  using merge_loop_distinct [of "[]" "{}" "retrieved self query"]
    merge_loop_texts [of "retrieved self query" "{}" "[]"]
  by (simp add: merged_docs_of_def merge_loop_first_occurrences retrieved_def)

section \<open>Properties of the filtering and of the branches of \<open>invoke\<close>\<close>

lemma sorted_reverse_set: "set (sorted_reverse key xs) = set xs"
  by (simp add: sorted_reverse_def)

lemma sorted_reverse_length: "length (sorted_reverse key xs) = length xs"
  by (simp add: sorted_reverse_def)

lemma sorted_reverse_descending: "sorted_wrt (\<lambda>a b. a \<ge> b) (map key (sorted_reverse key xs))"
proof -
  have "sorted (map key (sort_key key (rev xs)))"
    by (rule sorted_sort_key)
  then show ?thesis
    by (simp add: sorted_reverse_def rev_map [symmetric] sorted_wrt_rev)
qed

lemma filtering_length: "length (filtering thr reranked) \<le> 3"
  by (simp add: filtering_def)

lemma filtering_threshold: "item \<in> set (filtering thr reranked) \<Longrightarrow> thr \<le> fst item"
  by (auto simp: filtering_def sorted_reverse_set dest!: in_set_takeD)

lemma filtering_descending: "sorted_wrt (\<lambda>a b. a \<ge> b) (map fst (filtering thr reranked))"
  unfolding filtering_def take_map [symmetric]
  by (rule sorted_wrt_take) (rule sorted_reverse_descending)

lemma filtering_empty_iff:
  "filtering thr reranked = [] \<longleftrightarrow> (\<forall>item \<in> set reranked. \<not> thr \<le> fst item)"
proof -
  have "sorted_reverse fst xs = [] \<longleftrightarrow> xs = []" for xs :: "('a \<times> ustr \<times> ustr) list"
    using sorted_reverse_length [of fst xs] by (metis length_0_conv)
  then have "filtering thr reranked = [] \<longleftrightarrow> filter (\<lambda>item. fst item \<ge> thr) reranked = []"
    by (simp add: filtering_def)
  then show ?thesis
    by (simp add: filter_empty_conv)
qed

lemma get_rerank_scores_trace:
  "snd (get_rerank_scores L M q docs ds dr tr) = tr @ map (rerank_call q) docs"
  by (simp add: get_rerank_scores_def rerank_loop_trace)

lemma get_rerank_scores_split:
  "get_rerank_scores L (llm_of self) query (map page_content (merged_docs_of self query))
      0 default_reason tr = (reranked_of L self query tr, scored_trace self query tr)"
  by (simp add: prod_eq_iff reranked_of_def scored_trace_def get_rerank_scores_trace)

lemma invoke_no_documents:
  assumes "merged_docs_of self (query_of inputs) = []"
  shows "invoke L self inputs tr =
     returning
       (chain_run (llm_of self) (fallback_prompt, [ascii ''question'' \<mapsto> query_of inputs]) tr)
       (\<lambda>response. \<lparr>result = response, source_documents = [], top_score = 0,
                     used_knowledge = False, no_use_reason = Some no_documents_reason\<rparr>)"
  using assms by (simp add: invoke_def query_of_def Let_def)

lemma invoke_no_relevant:
  assumes "merged_docs_of self (query_of inputs) \<noteq> []"
    and "filtered_of L self (query_of inputs) tr = []"
  shows "invoke L self inputs tr =
     returning
       (chain_run (llm_of self)
          (fallback_prompt,
           [ascii ''question'' \<mapsto> query_of inputs,
            ascii ''chat_history'' \<mapsto> chat_history_of inputs])
          (scored_trace self (query_of inputs) tr))
       (\<lambda>response. \<lparr>result = response, source_documents = [], top_score = 0,
                     used_knowledge = False, no_use_reason = Some no_relevant_reason\<rparr>)"
  using assms get_rerank_scores_split [of L self "query_of inputs" tr]
  by (simp add: invoke_def Let_def filtered_of_def query_of_def [symmetric]
      chat_history_of_def [symmetric])

lemma invoke_answering:
  assumes "merged_docs_of self (query_of inputs) \<noteq> []"
    and "filtered_of L self (query_of inputs) tr \<noteq> []"
  shows "invoke L self inputs tr =
     returning
       (chain_run (llm_of self)
          (legal_prompt,
           [ascii ''context'' \<mapsto> fst (assembled_of L self (query_of inputs) tr),
            ascii ''question'' \<mapsto> query_of inputs,
            ascii ''chat_history'' \<mapsto> chat_history_of inputs])
          (scored_trace self (query_of inputs) tr))
       (\<lambda>response. \<lparr>result = response,
                     source_documents = snd (assembled_of L self (query_of inputs) tr),
                     top_score = (case snd (assembled_of L self (query_of inputs) tr) of
                                    [] \<Rightarrow> 0 | d # _ \<Rightarrow> score d),
                     used_knowledge = True, no_use_reason = None\<rparr>)"
  using assms get_rerank_scores_split [of L self "query_of inputs" tr]
  by (simp add: invoke_def Let_def filtered_of_def assembled_of_def case_prod_unfold
      query_of_def [symmetric] chat_history_of_def [symmetric])

text \<open>
  C7. The filtering keeps at most three scored candidates, each with a score at least
  the threshold, in order of non-increasing score; and when documents were retrieved
  and none remains after the filtering, \<open>invoke\<close> makes the no-knowledge call with
  the question and the chat history and, when the model replies, returns the result
  of the fallback with the reason of line 121 ("no relevant knowledge document").
\<close>

theorem filtering_top3_threshold_order:
  "length (filtering thr reranked) \<le> 3 \<and>
   (\<forall>item \<in> set (filtering thr reranked). thr \<le> fst item) \<and>
   sorted_wrt (\<lambda>a b. a \<ge> b) (map fst (filtering thr reranked)) \<and>
   (merged_docs_of self (query_of inputs) \<noteq> [] \<and>
    filtering (threshold self) (reranked_of L self (query_of inputs) tr) = [] \<longrightarrow>
      snd (invoke L self inputs tr) =
        scored_trace self (query_of inputs) tr @
          [(fallback_prompt,
            [ascii ''question'' \<mapsto> query_of inputs,
             ascii ''chat_history'' \<mapsto> chat_history_of inputs])] \<and>
      fst (invoke L self inputs tr) =
        (case llm_of self (scored_trace self (query_of inputs) tr)
                (fallback_prompt,
                 [ascii ''question'' \<mapsto> query_of inputs,
                  ascii ''chat_history'' \<mapsto> chat_history_of inputs]) of
           Raises e \<Rightarrow> Inl e
         | Reply response \<Rightarrow>
             Inr \<lparr>result = response, source_documents = [], top_score = 0,
                  used_knowledge = False, no_use_reason = Some no_relevant_reason\<rparr>))"
proof -
  have "snd (invoke L self inputs tr) =
        scored_trace self (query_of inputs) tr @
          [(fallback_prompt,
            [ascii ''question'' \<mapsto> query_of inputs,
             ascii ''chat_history'' \<mapsto> chat_history_of inputs])] \<and>
      fst (invoke L self inputs tr) =
        (case llm_of self (scored_trace self (query_of inputs) tr)
                (fallback_prompt,
                 [ascii ''question'' \<mapsto> query_of inputs,
                  ascii ''chat_history'' \<mapsto> chat_history_of inputs]) of
           Raises e \<Rightarrow> Inl e
         | Reply response \<Rightarrow>
             Inr \<lparr>result = response, source_documents = [], top_score = 0,
                  used_knowledge = False, no_use_reason = Some no_relevant_reason\<rparr>)"
    if "merged_docs_of self (query_of inputs) \<noteq> []"
      and "filtering (threshold self) (reranked_of L self (query_of inputs) tr) = []"
    using invoke_no_relevant [of self inputs L tr] that
    by (simp add: filtered_of_def returning_def chain_run_def split: reply.splits)
  then show ?thesis
    using filtering_length [of thr reranked] filtering_descending [of thr reranked]
      filtering_threshold [of _ thr reranked]
    by blast
qed

lemma law_merged: "merged_docs_of law_runnable (ascii ''q'') = [law_doc]"
  by (simp add: merged_docs_of_def retrieved_def law_runnable_def QARunnable_init_def
      segmented_docs_def segmented_text_def law_doc_def)

lemma law_fields:
  "llm_of law_runnable = always_reply" "threshold law_runnable = 70"
  "max_context_length law_runnable = 2000"
  by (simp_all add: law_runnable_def QARunnable_init_def)

lemma law_reranked:
  "reranked_of silent_lib law_runnable (ascii ''q'') [] = [(0, ascii ''law'', default_reason)]"
  by (simp add: reranked_of_def law_merged law_fields get_rerank_scores_def chain_run_def
      score_document_def silent_lib_def always_reply_def law_doc_def)

theorem filtering_top3_threshold_order_witness:
  "filtering (70 :: real)
     [(85, ascii ''a'', ascii ''r''), (40, ascii ''b'', ascii ''r''), (72, ascii ''c'', ascii ''r'')] =
     [(85, ascii ''a'', ascii ''r''), (72, ascii ''c'', ascii ''r'')] \<and>
   (70 :: real) \<le> 85 \<and> (70 :: real) \<le> 72 \<and>
   merged_docs_of law_runnable (query_of law_inputs) \<noteq> [] \<and>
   filtering (threshold law_runnable) (reranked_of silent_lib law_runnable (query_of law_inputs) []) = [] \<and>
   fst (invoke silent_lib law_runnable law_inputs []) =
     Inr \<lparr>result = ascii ''answer'', source_documents = [], top_score = 0,
          used_knowledge = False, no_use_reason = Some no_relevant_reason\<rparr>"
proof -
  have q: "query_of law_inputs = ascii ''q''"
    by (simp add: query_of_def law_inputs_def dict_get_def)
  have f: "filtering (70 :: real)
     [(85, ascii ''a'', ascii ''r''), (40, ascii ''b'', ascii ''r''), (72, ascii ''c'', ascii ''r'')] =
     [(85, ascii ''a'', ascii ''r''), (72, ascii ''c'', ascii ''r'')]"
    by (simp add: filtering_def sorted_reverse_def)
  have e: "filtering (threshold law_runnable)
             (reranked_of silent_lib law_runnable (query_of law_inputs) []) = []"
    by (simp add: q law_reranked filtering_def sorted_reverse_def law_fields)
  show ?thesis
    using filtering_top3_threshold_order [where thr = "70 :: real"
        and reranked = "[(85, ascii ''a'', ascii ''r''), (40, ascii ''b'', ascii ''r''),
                         (72, ascii ''c'', ascii ''r'')]"
        and self = law_runnable and inputs = law_inputs and L = silent_lib and tr = "[]"]
      e
    by (simp add: f q law_merged law_fields always_reply_def)
qed

section \<open>Properties of the context assembly and of the answering path\<close>

lemma single_text_fields:
  "llm_of (single_text_runnable text) = always_reply"
  "threshold (single_text_runnable text) = 70"
  "max_context_length (single_text_runnable text) = 2000"
  by (simp_all add: single_text_runnable_def QARunnable_init_def)

lemma single_text_merged:
  "merged_docs_of (single_text_runnable text) q = [\<lparr>page_content = text, metadata = Map.empty\<rparr>]"
  by (simp add: merged_docs_of_def retrieved_def single_text_runnable_def QARunnable_init_def
      segmented_docs_def segmented_text_def)

lemma single_text_filtered:
  "filtered_of scoring_lib (single_text_runnable text) q [] = [(90, text, ascii ''answer'')]"
  by (simp add: filtered_of_def reranked_of_def single_text_merged single_text_fields
      get_rerank_scores_def chain_run_def score_document_def scoring_lib_def always_reply_def
      filtering_def sorted_reverse_def)

lemma law_inputs_values:
  "query_of law_inputs = ascii ''q''" "chat_history_of law_inputs = ascii ''h''"
  by (simp_all add: query_of_def chat_history_of_def law_inputs_def dict_get_def)

text \<open>
  C1, at a failing input. The index holds one passage of 2000 characters, scored 90.
  The check of line 130 admits it (0 + 2000 is not above 2000), line 137 appends the
  passage and the separator of two newlines, and the context handed to the
  knowledge-grounded call has 2002 characters, above \<open>max_context_length\<close> = 2000.
\<close>

theorem context_exceeds_budget_by_separator:
  "max_context_length (single_text_runnable (replicate 2000 0x6CD5)) = 2000 \<and>
   snd (invoke scoring_lib (single_text_runnable (replicate 2000 0x6CD5)) law_inputs []) =
     [rerank_call (ascii ''q'') (replicate 2000 0x6CD5),
      (legal_prompt,
       [ascii ''context'' \<mapsto> replicate 2000 0x6CD5 @ ascii ''\<newline>\<newline>'',
        ascii ''question'' \<mapsto> ascii ''q'', ascii ''chat_history'' \<mapsto> ascii ''h''])] \<and>
   length (replicate 2000 (0x6CD5 :: nat) @ ascii ''\<newline>\<newline>'') = 2002"
proof -
  have "fst (assembled_of scoring_lib (single_text_runnable (replicate 2000 0x6CD5)) (ascii ''q'') []) =
          replicate 2000 0x6CD5 @ ascii ''\<newline>\<newline>''"
    by (simp add: assembled_of_def single_text_filtered single_text_fields)
  then show ?thesis
    using invoke_answering [of "single_text_runnable (replicate 2000 0x6CD5)" law_inputs scoring_lib "[]"]
    by (simp add: law_inputs_values single_text_merged single_text_filtered single_text_fields
        returning_def chain_run_def always_reply_def scored_trace_def ascii_def)
qed

lemma filtered_of_no_documents:
  "merged_docs_of self query = [] \<Longrightarrow> filtered_of L self query tr = []"
  by (simp add: filtered_of_def reranked_of_def get_rerank_scores_def filtering_def
      sorted_reverse_def)

lemma returning_trace: "snd (returning (chain_run M c tr) build) = tr @ [c]"
  by (simp add: returning_def chain_run_def split: reply.splits)

lemma returning_outcome:
  "fst (returning (chain_run M c tr) build) =
     (case M tr c of Raises e \<Rightarrow> Inl e | Reply response \<Rightarrow> Inr (build response))"
  by (simp add: returning_def chain_run_def split: reply.splits)

lemma rerank_call_prompt: "fst (rerank_call q doc) = rerank_prompt"
  by (simp add: rerank_call_def)

lemma scored_trace_new_calls:
  "fst ` set (drop (length tr) (scored_trace self query tr @ [c])) \<subseteq> {rerank_prompt, fst c}"
  by (auto simp: scored_trace_def rerank_call_prompt)

lemma invoke_new_calls_fallback:
  assumes "filtered_of L self (query_of inputs) tr = []"
  shows "legal_prompt \<notin> fst ` set (drop (length tr) (snd (invoke L self inputs tr)))"
proof (cases "merged_docs_of self (query_of inputs) = []")
  case True
  then show ?thesis
    by (simp add: invoke_no_documents returning_trace)
next
  case False
  then show ?thesis
    using assms scored_trace_new_calls [of tr self "query_of inputs"
        "(fallback_prompt, [ascii ''question'' \<mapsto> query_of inputs,
            ascii ''chat_history'' \<mapsto> chat_history_of inputs])"]
    by (auto simp: invoke_no_relevant returning_trace)
qed

text \<open>
  C2, amended. Among the calls that \<open>invoke\<close> makes, the knowledge-grounded call
  (the template \<open>legal_prompt\<close>) occurs exactly when at least one scored candidate
  survived the filtering, whether or not a selected document survived the context
  assembly. In that case it is the last call, bound to the context, the question and
  the chat history, and when the model replies the result has \<open>used_knowledge\<close> true,
  the selected documents as sources, and as \<open>top_score\<close> the score of the first
  selected document, or 0 when there is none.
\<close>

theorem grounded_call_iff_filtered:
  "(legal_prompt \<in> fst ` set (drop (length tr) (snd (invoke L self inputs tr)))) =
     (filtered_of L self (query_of inputs) tr \<noteq> []) \<and>
   (filtered_of L self (query_of inputs) tr \<noteq> [] \<longrightarrow>
      snd (invoke L self inputs tr) =
        scored_trace self (query_of inputs) tr @
          [(legal_prompt,
            [ascii ''context'' \<mapsto> fst (assembled_of L self (query_of inputs) tr),
             ascii ''question'' \<mapsto> query_of inputs,
             ascii ''chat_history'' \<mapsto> chat_history_of inputs])] \<and>
      fst (invoke L self inputs tr) =
        (case llm_of self (scored_trace self (query_of inputs) tr)
                (legal_prompt,
                 [ascii ''context'' \<mapsto> fst (assembled_of L self (query_of inputs) tr),
                  ascii ''question'' \<mapsto> query_of inputs,
                  ascii ''chat_history'' \<mapsto> chat_history_of inputs]) of
           Raises e \<Rightarrow> Inl e
         | Reply response \<Rightarrow>
             Inr \<lparr>result = response,
                  source_documents = snd (assembled_of L self (query_of inputs) tr),
                  top_score = (case snd (assembled_of L self (query_of inputs) tr) of
                                 [] \<Rightarrow> 0 | d # _ \<Rightarrow> score d),
                  used_knowledge = True, no_use_reason = None\<rparr>))"
proof (cases "filtered_of L self (query_of inputs) tr = []")
  case True
  then show ?thesis
    using invoke_new_calls_fallback [of L self inputs tr] by simp
next
  case False
  then have m: "merged_docs_of self (query_of inputs) \<noteq> []"
    using filtered_of_no_documents [of self "query_of inputs" L tr] by blast
  have len: "length tr \<le> length (scored_trace self (query_of inputs) tr)"
    by (simp add: scored_trace_def)
  show ?thesis
    using False len
    by (simp add: invoke_answering [OF m False] returning_trace returning_outcome)
qed

theorem grounded_call_iff_filtered_witness:
  "filtered_of scoring_lib law_runnable (query_of law_inputs) [] \<noteq> [] \<and>
   fst (invoke scoring_lib law_runnable law_inputs []) =
     Inr \<lparr>result = ascii ''answer'',
          source_documents =
            [\<lparr>content = ascii ''law'', score = 90, reason = ascii ''answer'',
              source_name = ascii ''code'', source_text = []\<rparr>],
          top_score = 90, used_knowledge = True, no_use_reason = None\<rparr>"
proof -
  have f: "filtered_of scoring_lib law_runnable (ascii ''q'') [] = [(90, ascii ''law'', ascii ''answer'')]"
    by (simp add: filtered_of_def reranked_of_def law_merged law_fields
      get_rerank_scores_def chain_run_def score_document_def scoring_lib_def always_reply_def
      filtering_def sorted_reverse_def law_doc_def)
  have a: "snd (assembled_of scoring_lib law_runnable (ascii ''q'') []) =
      [\<lparr>content = ascii ''law'', score = 90, reason = ascii ''answer'',
              source_name = ascii ''code'', source_text = []\<rparr>]"
    by (simp add: assembled_of_def f law_merged law_fields content2metadata_of_def law_doc_def
        metadata_field_def dict_get_def)
  show ?thesis
    using grounded_call_iff_filtered [of "[]" scoring_lib law_runnable law_inputs]
    by (simp add: law_inputs_values f a law_fields always_reply_def)
qed

text \<open>
  C2 as stated fails. The only candidate, scored 90, has 2001 characters: line 130
  breaks before anything is selected, yet line 150 makes the knowledge-grounded call,
  with an empty context, and the result has \<open>used_knowledge\<close> true, no source
  document and \<open>top_score\<close> 0.
\<close>

theorem grounded_call_without_selected_document:
  "fst (invoke scoring_lib (single_text_runnable (replicate 2001 0x6CD5)) law_inputs []) =
     Inr \<lparr>result = ascii ''answer'', source_documents = [], top_score = 0,
          used_knowledge = True, no_use_reason = None\<rparr> \<and>
   snd (invoke scoring_lib (single_text_runnable (replicate 2001 0x6CD5)) law_inputs []) =
     [rerank_call (ascii ''q'') (replicate 2001 0x6CD5),
      (legal_prompt,
       [ascii ''context'' \<mapsto> [], ascii ''question'' \<mapsto> ascii ''q'',
        ascii ''chat_history'' \<mapsto> ascii ''h''])]"
proof -
  have "assembled_of scoring_lib (single_text_runnable (replicate 2001 0x6CD5)) (ascii ''q'') [] = ([], [])"
    by (simp add: assembled_of_def single_text_filtered single_text_fields)
  then show ?thesis
    using invoke_answering [of "single_text_runnable (replicate 2001 0x6CD5)" law_inputs scoring_lib "[]"]
    by (simp add: law_inputs_values single_text_merged single_text_filtered single_text_fields
        returning_def chain_run_def always_reply_def scored_trace_def)
qed

section \<open>A request without a user turn\<close>

lemma add_messages_no_user:
  "\<forall>m \<in> set msgs. role m \<noteq> ascii ''user'' \<Longrightarrow>
   snd (add_messages msgs history lq) = lq"
  by (induction msgs arbitrary: history lq) auto

lemma chat_service_no_user:
  assumes "\<forall>m \<in> set (messages req). role m \<noteq> ascii ''user''"
  shows "fst (chat_service L qa_chain ct req history tr) =
     Inl (ValueError (ascii ''No user question provided.''))"
  using add_messages_no_user [OF assms, of history None]
  by (simp add: chat_service_def falsy_def case_prod_unfold)

lemma chat_no_user:
  assumes "\<forall>m \<in> set (messages req). role m \<noteq> ascii ''user''"
  shows "fst (chat L qa_chain ct req history tr) =
     Inl (HTTPException 500
           (ascii ''Internal error: '' @
            str_exn L (HTTPException 400 (ascii ''No user question provided.''))))"
  using add_messages_no_user [OF assms, of history None]
  by (simp add: chat_def chat_try_def falsy_def case_prod_unfold)

lemma chat_never_400:
  "fst (chat L qa_chain ct req history tr) \<noteq> Inl (HTTPException 400 detail)"
  by (simp add: chat_def split: prod.splits sum.splits)

text \<open>
  C4, at a failing input. The batch holds one assistant turn and no user turn.
  \<open>chat_service\<close> raises the \<open>ValueError\<close> of line 57. The handler \<open>chat\<close> raises
  the \<open>HTTPException\<close> 400 of line 23 inside its own \<open>try\<close>, the \<open>except\<close> of line 54
  catches it, and the caller receives the status 500.
\<close>

theorem no_user_turn_is_answered_with_500:
  "fst (chat_service L qa_chain ct
          \<lparr>session_id = sid, messages = [\<lparr>role = ascii ''assistant'', msg_content = c\<rparr>]\<rparr>
          history tr) =
     Inl (ValueError (ascii ''No user question provided.'')) \<and>
   fst (chat L qa_chain ct
          \<lparr>session_id = sid, messages = [\<lparr>role = ascii ''assistant'', msg_content = c\<rparr>]\<rparr>
          history tr) =
     Inl (HTTPException 500
           (ascii ''Internal error: '' @
            str_exn L (HTTPException 400 (ascii ''No user question provided.''))))"
  by (simp add: chat_service_no_user chat_no_user)

section \<open>Properties of the history compressor\<close>












section \<open>The fallback call\<close>





section \<open>The lexical candidates\<close>

lemma length_join:
  "ts \<noteq> [] \<Longrightarrow> length (join sep ts) = length (concat ts) + (length ts - 1) * length sep"
  by (induction sep ts rule: join.induct) simp_all

lemma segmented_text_differs:
  assumes "concat (jieba_cut t) = t" and "1 < length (jieba_cut t)"
  shows "segmented_text jieba_cut t \<noteq> t"
proof -
  have "jieba_cut t \<noteq> []"
    using assms(2) by auto
  then have "length (segmented_text jieba_cut t) = length t + (length (jieba_cut t) - 1)"
    using length_join [of "jieba_cut t" "ascii '' ''"] assms(1)
    by (simp add: segmented_text_def)
  moreover have "0 < length (jieba_cut t) - 1"
    using assms(2) by simp
  ultimately have "length (segmented_text jieba_cut t) \<noteq> length t"
    by linarith
  then show ?thesis
    by (rule contrapos_nn) simp
qed

lemma segmented_docs_texts:
  "s \<in> set (segmented_docs jieba_cut texts metadatas) \<Longrightarrow>
   \<exists>t \<in> set texts. page_content s = segmented_text jieba_cut t"
  by (auto simp: segmented_docs_def dest: set_zip_leftD)

lemma distinct_count:
  "distinct (map f xs) \<Longrightarrow> length (filter (\<lambda>e. f e \<in> A) xs) = card (A \<inter> f ` set xs)"
proof (induction xs)
  case Nil
  then show ?case by simp
next
  case (Cons x xs)
  then have new: "f x \<notin> f ` set xs" and IH: "length (filter (\<lambda>e. f e \<in> A) xs) = card (A \<inter> f ` set xs)"
    by auto
  show ?case
  proof (cases "f x \<in> A")
    case True
    then have "A \<inter> f ` set (x # xs) = insert (f x) (A \<inter> f ` set xs)"
      by auto
    moreover have "f x \<notin> A \<inter> f ` set xs"
      using new by simp
    moreover have "finite (A \<inter> f ` set xs)"
      by simp
    ultimately show ?thesis
      using True IH by simp
  next
    case False
    then have "A \<inter> f ` set (x # xs) = A \<inter> f ` set xs"
      by auto
    with False IH show ?thesis by simp
  qed
qed

lemma merged_docs_two_forms:
  assumes "t \<noteq> s"
    and "t \<in> page_content ` set (similarity_search self query 15)"
    and "s \<in> page_content ` set (take 5 (bm25_invoke self query))"
  shows "length (filter (\<lambda>e. page_content e \<in> {t, s}) (merged_docs_of self query)) = 2"
proof -
  have d: "distinct (map page_content (merged_docs_of self query))"
    using merge_loop_distinct [of "[]" "{}" "retrieved self query"]
    by (simp add: merged_docs_of_def)
  have "page_content ` set (merged_docs_of self query) = page_content ` set (retrieved self query)"
    using merge_loop_texts [of "retrieved self query" "{}" "[]"]
    by (simp add: merged_docs_of_def)
  then have "{t, s} \<inter> page_content ` set (merged_docs_of self query) = {t, s}"
    using assms(2,3) by (auto simp: retrieved_def)
  then show ?thesis
    using distinct_count [OF d, of "{t, s}"] assms(1) by simp
qed

text \<open>
  C10. The object is built by \<open>__init__\<close>; the lexical retriever returns documents of
  the corpus it was built on, and the segmenter, as \<open>jieba.cut\<close> does, cuts a text
  into tokens that put together give the text again. Then every lexical candidate is
  the segmented copy of a stored text (its tokens joined by single spaces); for a
  stored text cut into more than one token the segmented copy differs from the text;
  and when the semantic search returns such a text and the lexical search (among its
  first five) its segmented copy, the merged list holds two entries for the one
  document, the original and the segmented one: the merge does not collapse them.
\<close>

theorem lexical_hit_not_collapsed_with_semantic_hit:
  assumes "\<forall>docs q. set (from_documents docs q) \<subseteq> set docs"
    and "\<forall>t \<in> set texts. concat (jieba_cut t) = t"
    and "self = QARunnable_init M search texts metadatas jieba_cut from_documents thr"
  shows "(\<forall>s \<in> set (bm25_invoke self query).
            \<exists>t \<in> set texts. page_content s = segmented_text jieba_cut t) \<and>
         (\<forall>t \<in> set texts. 1 < length (jieba_cut t) \<longrightarrow>
            segmented_text jieba_cut t \<noteq> t \<and>
            (t \<in> page_content ` set (similarity_search self query 15) \<and>
             segmented_text jieba_cut t \<in> page_content ` set (take 5 (bm25_invoke self query)) \<longrightarrow>
               length (filter (\<lambda>e. page_content e \<in> {t, segmented_text jieba_cut t})
                         (merged_docs_of self query)) = 2))"
proof -
  have "bm25_invoke self query = from_documents (segmented_docs jieba_cut texts metadatas) query"
    by (simp add: assms(3) QARunnable_init_def)
  then have "set (bm25_invoke self query) \<subseteq> set (segmented_docs jieba_cut texts metadatas)"
    using assms(1) by simp
  then have first: "\<forall>s \<in> set (bm25_invoke self query).
            \<exists>t \<in> set texts. page_content s = segmented_text jieba_cut t"
    using segmented_docs_texts [of _ jieba_cut texts metadatas] by blast
  have second: "segmented_text jieba_cut t \<noteq> t" if "t \<in> set texts" "1 < length (jieba_cut t)" for t
    using that assms(2) segmented_text_differs [of jieba_cut t] by blast
  have third: "length (filter (\<lambda>e. page_content e \<in> {t, segmented_text jieba_cut t})
                         (merged_docs_of self query)) = 2"
    if "t \<in> set texts" "1 < length (jieba_cut t)"
      "t \<in> page_content ` set (similarity_search self query 15)"
      "segmented_text jieba_cut t \<in> page_content ` set (take 5 (bm25_invoke self query))" for t
  proof -
    have "t \<noteq> segmented_text jieba_cut t"
      using second [OF that(1,2)] by simp
    then show ?thesis
      using that(3,4) by (rule merged_docs_two_forms)
  qed
  show ?thesis
    using first second third by simp
qed

theorem lexical_hit_not_collapsed_with_semantic_hit_witness:
  "segmented_text char_cut (ascii ''ab'') = ascii ''a b'' \<and>
   map page_content (merged_docs_of ab_runnable (ascii ''q'')) = [ascii ''ab'', ascii ''a b''] \<and>
   length (filter (\<lambda>e. page_content e \<in> {ascii ''ab'', segmented_text char_cut (ascii ''ab'')})
             (merged_docs_of ab_runnable (ascii ''q''))) = 2"
proof -
  have seg: "segmented_text char_cut (ascii ''ab'') = ascii ''a b''"
    by (simp add: segmented_text_def char_cut_def ascii_def)
  have m: "merged_docs_of ab_runnable (ascii ''q'') =
      [\<lparr>page_content = ascii ''ab'', metadata = Map.empty\<rparr>,
       \<lparr>page_content = ascii ''a b'', metadata = Map.empty\<rparr>]"
    by (simp add: merged_docs_of_def retrieved_def ab_runnable_def QARunnable_init_def
        segmented_docs_def seg)
  have corpus: "\<forall>docs q. set ((\<lambda>docs query. take 4 docs) docs q) \<subseteq> set (docs :: document list)"
    by (simp add: set_take_subset)
  have lossless: "\<forall>t \<in> set [ascii ''ab'']. concat (char_cut t) = t"
    by (simp add: char_cut_def ascii_def)
  have built: "ab_runnable =
      QARunnable_init always_reply
        (\<lambda>query k. [\<lparr>page_content = ascii ''ab'', metadata = Map.empty\<rparr>])
        [ascii ''ab''] [Map.empty] char_cut (\<lambda>docs query. take 4 docs) 70"
    by (simp add: ab_runnable_def)
  show ?thesis
    using lexical_hit_not_collapsed_with_semantic_hit [OF corpus lossless built, of "ascii ''q''"]
    by (simp add: seg m)
qed

end
